theory Spec2Isabelle
  imports Main
begin

section \<open>Python values and scope mappings\<close>

text \<open>
  The values a scope can bind, as far as \<^verbatim>\<open>isa.py\<close> looks at them: it compares the
  \<^verbatim>\<open>__name__\<close> binding with a \<^verbatim>\<open>str\<close> literal and takes the truth value of the
  \<^verbatim>\<open>__file__\<close> binding. Objects with an \<^verbatim>\<open>__eq__\<close> or \<^verbatim>\<open>__bool__\<close> of their own are
  not modelled.
\<close>

datatype pyval = PNone | PBool bool | PInt int | PStr string | PList "pyval list"

text \<open>\<^verbatim>\<open>bool(v)\<close>: \<^verbatim>\<open>None\<close>, \<^verbatim>\<open>False\<close>, zero and the empty string and list are false.\<close>

fun py_bool :: "pyval \<Rightarrow> bool" where
  "py_bool PNone = False"
| "py_bool (PBool b) = b"
| "py_bool (PInt i) = (i \<noteq> 0)"
| "py_bool (PStr s) = (s \<noteq> [])"
| "py_bool (PList vs) = (vs \<noteq> [])"

text \<open>\<^verbatim>\<open>v == s\<close> for a \<^verbatim>\<open>str\<close> \<^verbatim>\<open>s\<close>: only a \<^verbatim>\<open>str\<close> of the same characters is equal to it.\<close>

fun py_eq_str :: "pyval \<Rightarrow> string \<Rightarrow> bool" where
  "py_eq_str (PStr s) t = (s = t)"
| "py_eq_str PNone t = False"
| "py_eq_str (PBool b) t = False"
| "py_eq_str (PInt i) t = False"
| "py_eq_str (PList vs) t = False"

text \<open>A scope mapping is a \<^verbatim>\<open>dict\<close> keyed by names; \<^verbatim>\<open>d.get(k)\<close> is \<^verbatim>\<open>None\<close> for a missing key.\<close>

type_synonym scope = "string \<rightharpoonup> pyval"

definition dict_get :: "scope \<Rightarrow> string \<Rightarrow> pyval" where
  "dict_get d k = (case d k of None \<Rightarrow> PNone | Some v \<Rightarrow> v)"

section \<open>Frames and the frame locator\<close>

text \<open>
  Objects have an identity: a frame refers to its local and its global bindings by
  address, and the heap holds the mapping stored at each address. \<^verbatim>\<open>a is b\<close> is equality
  of addresses. The call stack is the list \<^verbatim>\<open>getouterframes(currentframe())\<close>: the
  innermost frame first.
\<close>

type_synonym addr = nat

record frame =
  f_locals :: addr
  f_globals :: addr

type_synonym heap = "addr \<Rightarrow> scope"

text \<open>
  \<^verbatim>\<open>
  for frame in getouterframes(currentframe()):
      if frame.frame.f_locals is frame.frame.f_globals:
          return frame.frame
  \<close>
  Falling off the end of the loop returns \<^verbatim>\<open>None\<close>.
\<close>

fun get_last_module :: "frame list \<Rightarrow> frame option" where
  "get_last_module [] = None"
| "get_last_module (fr # outer) =
     (if f_locals fr = f_globals fr then Some fr else get_last_module outer)"

section \<open>Errors\<close>

text \<open>
  \<^verbatim>\<open>get_last_module().f_globals\<close> raises \<^verbatim>\<open>AttributeError\<close> when no frame was found;
  \<^verbatim>\<open>|\<close> and \<^verbatim>\<open>&\<close> between two plain values that support neither raise \<^verbatim>\<open>TypeError\<close>.
\<close>

datatype error = AttributeError | TypeError

text \<open>\<^verbatim>\<open>x and y\<close> and \<^verbatim>\<open>not x\<close> on booleans: \<^verbatim>\<open>y\<close> is evaluated only when \<^verbatim>\<open>x\<close> is true.\<close>

definition py_and :: "error + bool \<Rightarrow> error + bool \<Rightarrow> error + bool" where
  "py_and x y = (case x of Inl e \<Rightarrow> Inl e | Inr a \<Rightarrow> if a then y else Inr a)"

definition py_not :: "error + bool \<Rightarrow> error + bool" where
  "py_not x = (case x of Inl e \<Rightarrow> Inl e | Inr a \<Rightarrow> Inr (\<not> a))"

section \<open>The predicates\<close>

text \<open>
  \<^verbatim>\<open>
  def _default_globals(callable):
      def default(globals=None):
          if globals is None:
              globals = get_last_module().f_globals
          return callable(globals)
  \<close>
  The argument is \<^verbatim>\<open>None\<close> (also when omitted) or a scope mapping. The stack is the one
  the frame locator walks; the frames of function bodies entered on the way have locals
  of their own and are passed over (lemma \<open>get_last_module_skips\<close>).
\<close>

definition default_globals ::
  "(scope \<Rightarrow> error + 'a) \<Rightarrow> frame list \<Rightarrow> heap \<Rightarrow> scope option \<Rightarrow> error + 'a" where
  "default_globals callable stk h globals =
     (case globals of
        None \<Rightarrow>
          (case get_last_module stk of
             None \<Rightarrow> Inl AttributeError
           | Some fr \<Rightarrow> callable (h (f_globals fr)))
      | Some g \<Rightarrow> callable g)"

text \<open>\<^verbatim>\<open>return globals.get("__name__") == "__main__"\<close>\<close>

definition is_main :: "frame list \<Rightarrow> heap \<Rightarrow> scope option \<Rightarrow> error + bool" where
  "is_main stk h =
     default_globals (\<lambda>globals. Inr (py_eq_str (dict_get globals ''__name__'') ''__main__'')) stk h"

text \<open>\<^verbatim>\<open>return bool(globals.get("__file__"))\<close>\<close>

definition is_file :: "frame list \<Rightarrow> heap \<Rightarrow> scope option \<Rightarrow> error + bool" where
  "is_file stk h =
     default_globals (\<lambda>globals. Inr (py_bool (dict_get globals ''__file__''))) stk h"

text \<open>\<^verbatim>\<open>return is_main(globals) and not is_file(globals)\<close>\<close>

definition is_interactive :: "frame list \<Rightarrow> heap \<Rightarrow> scope option \<Rightarrow> error + bool" where
  "is_interactive stk h =
     default_globals
       (\<lambda>globals. py_and (is_main stk h (Some globals)) (py_not (is_file stk h (Some globals))))
       stk h"

text \<open>\<^verbatim>\<open>return not is_main(globals) and is_file(globals)\<close>\<close>

definition is_module :: "frame list \<Rightarrow> heap \<Rightarrow> scope option \<Rightarrow> error + bool" where
  "is_module stk h =
     default_globals
       (\<lambda>globals. py_and (py_not (is_main stk h (Some globals))) (is_file stk h (Some globals)))
       stk h"

text \<open>\<^verbatim>\<open>return is_main(globals) and is_file(globals)\<close>\<close>

definition is_script :: "frame list \<Rightarrow> heap \<Rightarrow> scope option \<Rightarrow> error + bool" where
  "is_script stk h =
     default_globals
       (\<lambda>globals. py_and (is_main stk h (Some globals)) (is_file stk h (Some globals)))
       stk h"

section \<open>The flags\<close>

text \<open>The five classes whose metaclass is \<^verbatim>\<open>State\<close>.\<close>

datatype flag = MAIN | FILE | INTERACTIVE | SCRIPT | MODULE

text \<open>
  Each class's \<^verbatim>\<open>predicate(cls, globals)\<close>; \<^verbatim>\<open>FILE\<close> wraps its result in \<^verbatim>\<open>bool(...)\<close>.
\<close>

fun predicate :: "flag \<Rightarrow> frame list \<Rightarrow> heap \<Rightarrow> scope \<Rightarrow> error + bool" where
  "predicate MAIN stk h globals = is_main stk h (Some globals)"
| "predicate FILE stk h globals =
     (case is_file stk h (Some globals) of Inl e \<Rightarrow> Inl e | Inr b \<Rightarrow> Inr (py_bool (PBool b)))"
| "predicate INTERACTIVE stk h globals = is_interactive stk h (Some globals)"
| "predicate SCRIPT stk h globals = is_script stk h (Some globals)"
| "predicate MODULE stk h globals = is_module stk h (Some globals)"

text \<open>
  \<^verbatim>\<open>
  def __bool__(cls, level=1):
      return cls.predicate(get_last_module().f_globals)
  \<close>
\<close>

definition State_bool :: "flag \<Rightarrow> frame list \<Rightarrow> heap \<Rightarrow> error + bool" where
  "State_bool cls stk h =
     (case get_last_module stk of
        None \<Rightarrow> Inl AttributeError
      | Some fr \<Rightarrow> predicate cls stk h (h (f_globals fr)))"

text \<open>An operand of \<^verbatim>\<open>|\<close> or \<^verbatim>\<open>&\<close>: a flag class, or a plain value such as a boolean.\<close>

datatype operand = Flag flag | Plain pyval

text \<open>\<^verbatim>\<open>bool(x)\<close> of an operand.\<close>

fun operand_bool :: "operand \<Rightarrow> frame list \<Rightarrow> heap \<Rightarrow> error + bool" where
  "operand_bool (Flag cls) stk h = State_bool cls stk h"
| "operand_bool (Plain v) stk h = Inr (py_bool v)"

text \<open>
  \<^verbatim>\<open>x or y\<close> is \<^verbatim>\<open>x\<close> when \<^verbatim>\<open>bool(x)\<close> is true and \<^verbatim>\<open>y\<close> otherwise; \<^verbatim>\<open>x and y\<close> is \<^verbatim>\<open>x\<close> when
  \<^verbatim>\<open>bool(x)\<close> is false and \<^verbatim>\<open>y\<close> otherwise. Only \<^verbatim>\<open>bool(x)\<close> is evaluated; the result is
  one of the two objects.
\<close>

definition py_or_obj :: "operand \<Rightarrow> operand \<Rightarrow> frame list \<Rightarrow> heap \<Rightarrow> error + operand" where
  "py_or_obj x y stk h =
     (case operand_bool x stk h of Inl e \<Rightarrow> Inl e | Inr t \<Rightarrow> Inr (if t then x else y))"

definition py_and_obj :: "operand \<Rightarrow> operand \<Rightarrow> frame list \<Rightarrow> heap \<Rightarrow> error + operand" where
  "py_and_obj x y stk h =
     (case operand_bool x stk h of Inl e \<Rightarrow> Inl e | Inr t \<Rightarrow> Inr (if t then y else x))"

text \<open>
  \<^verbatim>\<open>
  def __or__(a, b):   return a or b
  def __ror__(b, a):  return a or b
  def __and__(a, b):  return a and b
  def __rand__(b, a): return b and a
  \<close>
  The first parameter is the flag the method is called on.
\<close>

definition State_or :: "flag \<Rightarrow> operand \<Rightarrow> frame list \<Rightarrow> heap \<Rightarrow> error + operand" where
  "State_or a b stk h = py_or_obj (Flag a) b stk h"

definition State_ror :: "flag \<Rightarrow> operand \<Rightarrow> frame list \<Rightarrow> heap \<Rightarrow> error + operand" where
  "State_ror b a stk h = py_or_obj a (Flag b) stk h"

definition State_and :: "flag \<Rightarrow> operand \<Rightarrow> frame list \<Rightarrow> heap \<Rightarrow> error + operand" where
  "State_and a b stk h = py_and_obj (Flag a) b stk h"

definition State_rand :: "flag \<Rightarrow> operand \<Rightarrow> frame list \<Rightarrow> heap \<Rightarrow> error + operand" where
  "State_rand b a stk h = py_and_obj (Flag b) a stk h"

text \<open>
  The built-in \<^verbatim>\<open>|\<close> and \<^verbatim>\<open>&\<close> of two plain values: logical on two booleans, bitwise on
  integers (a boolean counting as 0 or 1), \<^verbatim>\<open>TypeError\<close> on \<^verbatim>\<open>None\<close>, strings and lists.
\<close>

fun int_of :: "pyval \<Rightarrow> int option" where
  "int_of (PBool b) = Some (if b then 1 else 0)"
| "int_of (PInt i) = Some i"
| "int_of PNone = None"
| "int_of (PStr s) = None"
| "int_of (PList vs) = None"

fun builtin_or :: "pyval \<Rightarrow> pyval \<Rightarrow> error + operand" where
  "builtin_or (PBool a) (PBool b) = Inr (Plain (PBool (a \<or> b)))"
| "builtin_or v w =
     (case (int_of v, int_of w) of
        (Some i, Some j) \<Rightarrow> Inr (Plain (PInt (or i j)))
      | _ \<Rightarrow> Inl TypeError)"

fun builtin_and :: "pyval \<Rightarrow> pyval \<Rightarrow> error + operand" where
  "builtin_and (PBool a) (PBool b) = Inr (Plain (PBool (a \<and> b)))"
| "builtin_and v w =
     (case (int_of v, int_of w) of
        (Some i, Some j) \<Rightarrow> Inr (Plain (PInt (and i j)))
      | _ \<Rightarrow> Inl TypeError)"

text \<open>
  The expressions \<^verbatim>\<open>x | y\<close> and \<^verbatim>\<open>x & y\<close>: a flag on the left answers with \<^verbatim>\<open>__or__\<close> or
  \<^verbatim>\<open>__and__\<close>; a plain value on the left does not know the flag on its right
  (\<^verbatim>\<open>NotImplemented\<close>), so the flag answers with \<^verbatim>\<open>__ror__\<close> or \<^verbatim>\<open>__rand__\<close>.
\<close>

fun py_bar :: "operand \<Rightarrow> operand \<Rightarrow> frame list \<Rightarrow> heap \<Rightarrow> error + operand" where
  "py_bar (Flag a) y stk h = State_or a y stk h"
| "py_bar (Plain v) (Flag b) stk h = State_ror b (Plain v) stk h"
| "py_bar (Plain v) (Plain w) stk h = builtin_or v w"

fun py_amp :: "operand \<Rightarrow> operand \<Rightarrow> frame list \<Rightarrow> heap \<Rightarrow> error + operand" where
  "py_amp (Flag a) y stk h = State_and a y stk h"
| "py_amp (Plain v) (Flag b) stk h = State_rand b (Plain v) stk h"
| "py_amp (Plain v) (Plain w) stk h = builtin_and v w"

text \<open>The truth value of an expression's result, as \<^verbatim>\<open>assert\<close>, \<^verbatim>\<open>if\<close> and \<^verbatim>\<open>not\<close> take it.\<close>

definition truth :: "error + operand \<Rightarrow> frame list \<Rightarrow> heap \<Rightarrow> error + bool" where
  "truth r stk h = (case r of Inl e \<Rightarrow> Inl e | Inr x \<Rightarrow> operand_bool x stk h)"

section \<open>The module's own compound conditions\<close>

text \<open>Sequencing: an error raised by the first step is the error of the whole.\<close>

definition then_res :: "error + 'a \<Rightarrow> ('a \<Rightarrow> error + 'b) \<Rightarrow> error + 'b" where
  "then_res r k = (case r of Inl e \<Rightarrow> Inl e | Inr x \<Rightarrow> k x)"

text \<open>
  Two of the expressions the module's doctests assert (\<^verbatim>\<open>test_higher_conditons\<close>):
  \<^verbatim>\<open>MAIN | SCRIPT\<close> and \<^verbatim>\<open>MODULE & (not MAIN) & FILE\<close>. \<^verbatim>\<open>not MAIN\<close> is the plain boolean
  opposite to \<^verbatim>\<open>bool(MAIN)\<close>, and \<^verbatim>\<open>&\<close> associates to the left.
\<close>

definition main_or_script :: "frame list \<Rightarrow> heap \<Rightarrow> error + operand" where
  "main_or_script stk h = py_bar (Flag MAIN) (Flag SCRIPT) stk h"

definition module_and_not_main_and_file :: "frame list \<Rightarrow> heap \<Rightarrow> error + operand" where
  "module_and_not_main_and_file stk h =
     then_res (py_not (State_bool MAIN stk h)) (\<lambda>n.
       then_res (py_amp (Flag MODULE) (Plain (PBool n)) stk h) (\<lambda>r.
         py_amp r (Flag FILE) stk h))"

section \<open>Example contexts\<close>

text \<open>
  The heap holds, at address 2, the globals of this module imported under the name
  \<^verbatim>\<open>isa\<close> and, at address 5, the globals of the same file run as a script. In the first
  stack a flag is tested at the top level of the imported module, itself imported by the
  script: the frames of \<^verbatim>\<open>get_last_module\<close> and \<^verbatim>\<open>__bool__\<close> come first, with locals of
  their own. In the second stack the flag is tested at the top level of the script.
\<close>

abbreviation imported_scope :: scope where
  "imported_scope \<equiv> [''__name__'' \<mapsto> PStr ''isa'', ''__file__'' \<mapsto> PStr ''isa.py'']"

abbreviation script_scope :: scope where
  "script_scope \<equiv> [''__name__'' \<mapsto> PStr ''__main__'', ''__file__'' \<mapsto> PStr ''isa.py'']"

abbreviation example_heap :: heap where
  "example_heap \<equiv> (\<lambda>a. Map.empty)(2 := imported_scope, 5 := script_scope)"

abbreviation imported_stack :: "frame list" where
  "imported_stack \<equiv>
     [\<lparr>f_locals = 0, f_globals = 2\<rparr>, \<lparr>f_locals = 1, f_globals = 2\<rparr>,
      \<lparr>f_locals = 2, f_globals = 2\<rparr>, \<lparr>f_locals = 5, f_globals = 5\<rparr>]"

abbreviation script_stack :: "frame list" where
  "script_stack \<equiv>
     [\<lparr>f_locals = 3, f_globals = 5\<rparr>, \<lparr>f_locals = 4, f_globals = 5\<rparr>,
      \<lparr>f_locals = 5, f_globals = 5\<rparr>]"

section \<open>Properties of the frame locator\<close>

lemma get_last_module_skips:
  "list_all (\<lambda>fr. f_locals fr \<noteq> f_globals fr) inner \<Longrightarrow>
   get_last_module (inner @ stk) = get_last_module stk"
  by (induction inner) simp_all

text \<open>
  C8. \<^verbatim>\<open>get_last_module\<close> returns a frame exactly when the stack splits into inner frames
  whose locals are not their globals, that frame, whose locals are its globals, and the
  frames outside it: the first such frame, walking outward. It returns \<^verbatim>\<open>None\<close> exactly
  when no frame of the stack has its locals identical to its globals.
\<close>

theorem get_last_module_first:
  "(get_last_module stk = Some fr) =
     (\<exists>inner outer. stk = inner @ fr # outer \<and> f_locals fr = f_globals fr
        \<and> (\<forall>f \<in> set inner. f_locals f \<noteq> f_globals f))
   \<and> (get_last_module stk = None) = (\<forall>f \<in> set stk. f_locals f \<noteq> f_globals f)"
proof (induction stk)
  case Nil
  show ?case by simp
next
  case (Cons a stk)
  show ?case
  proof (cases "f_locals a = f_globals a")
    case True
    have "(\<exists>inner outer. a # stk = inner @ fr # outer \<and> f_locals fr = f_globals fr
        \<and> (\<forall>f \<in> set inner. f_locals f \<noteq> f_globals f)) = (a = fr)"
    proof
      assume "\<exists>inner outer. a # stk = inner @ fr # outer \<and> f_locals fr = f_globals fr
        \<and> (\<forall>f \<in> set inner. f_locals f \<noteq> f_globals f)"
      then obtain inner outer where e: "a # stk = inner @ fr # outer"
        and n: "\<forall>f \<in> set inner. f_locals f \<noteq> f_globals f" by blast
      show "a = fr"
      proof (cases inner)
        case Nil
        with e show ?thesis by simp
      next
        case (Cons b bs)
        with e have "a \<in> set inner" by simp
        with n True show ?thesis by blast
      qed
    next
      assume "a = fr"
      with True have "a # stk = [] @ fr # stk \<and> f_locals fr = f_globals fr
        \<and> (\<forall>f \<in> set []. f_locals f \<noteq> f_globals f)" by simp
      then show "\<exists>inner outer. a # stk = inner @ fr # outer \<and> f_locals fr = f_globals fr
        \<and> (\<forall>f \<in> set inner. f_locals f \<noteq> f_globals f)" by blast
    qed
    with True show ?thesis by auto
  next
    case False
    have "(\<exists>inner outer. a # stk = inner @ fr # outer \<and> f_locals fr = f_globals fr
        \<and> (\<forall>f \<in> set inner. f_locals f \<noteq> f_globals f)) =
      (\<exists>inner outer. stk = inner @ fr # outer \<and> f_locals fr = f_globals fr
        \<and> (\<forall>f \<in> set inner. f_locals f \<noteq> f_globals f))" (is "?L = ?R")
    proof
      assume ?L
      then obtain inner outer where e: "a # stk = inner @ fr # outer"
        and m: "f_locals fr = f_globals fr"
        and n: "\<forall>f \<in> set inner. f_locals f \<noteq> f_globals f" by blast
      show ?R
      proof (cases inner)
        case Nil
        with e m False show ?thesis by simp
      next
        case (Cons b bs)
        with e n m have "stk = bs @ fr # outer \<and> f_locals fr = f_globals fr
          \<and> (\<forall>f \<in> set bs. f_locals f \<noteq> f_globals f)" by simp
        then show ?thesis by blast
      qed
    next
      assume ?R
      then obtain inner outer where e: "stk = inner @ fr # outer"
        and m: "f_locals fr = f_globals fr"
        and n: "\<forall>f \<in> set inner. f_locals f \<noteq> f_globals f" by blast
      with False have "a # stk = (a # inner) @ fr # outer \<and> f_locals fr = f_globals fr
          \<and> (\<forall>f \<in> set (a # inner). f_locals f \<noteq> f_globals f)" by simp
      then show ?L by blast
    qed
    with False Cons.IH show ?thesis by simp
  qed
qed

text \<open>
  A function body called from a module that was called from another module: the walk
  passes the function's frame and stops at the nearer module. A lone function frame
  gives \<^verbatim>\<open>None\<close>.
\<close>

theorem get_last_module_first_witness:
  "get_last_module [\<lparr>f_locals = 1, f_globals = 0\<rparr>, \<lparr>f_locals = 2, f_globals = 2\<rparr>,
       \<lparr>f_locals = 3, f_globals = 3\<rparr>] = Some \<lparr>f_locals = 2, f_globals = 2\<rparr>
   \<and> get_last_module [\<lparr>f_locals = 1, f_globals = 0\<rparr>] = None"
proof -
  let ?A = "\<lparr>f_locals = 1, f_globals = 0::addr\<rparr>"
  let ?B = "\<lparr>f_locals = 2, f_globals = 2::addr\<rparr>"
  let ?C = "\<lparr>f_locals = 3, f_globals = 3::addr\<rparr>"
  have "[?A, ?B, ?C] = [?A] @ ?B # [?C] \<and> f_locals ?B = f_globals ?B
      \<and> (\<forall>f \<in> set [?A]. f_locals f \<noteq> f_globals f)"
    by simp
  then have "\<exists>inner outer. [?A, ?B, ?C] = inner @ ?B # outer \<and> f_locals ?B = f_globals ?B
      \<and> (\<forall>f \<in> set inner. f_locals f \<noteq> f_globals f)"
    by blast
  then have found: "get_last_module [?A, ?B, ?C] = Some ?B"
    by (rule iffD2 [OF conjunct1 [OF get_last_module_first]])
  have "\<forall>f \<in> set [?A]. f_locals f \<noteq> f_globals f"
    by simp
  then have none: "get_last_module [?A] = None"
    by (rule iffD2 [OF conjunct2 [OF get_last_module_first]])
  from found none show ?thesis by (rule conjI)
qed

section \<open>Properties of the predicates on an explicit scope\<close>

lemma is_main_explicit:
  "is_main stk h (Some g) = Inr (py_eq_str (dict_get g ''__name__'') ''__main__'')"
  by (simp add: is_main_def default_globals_def)

lemma is_file_explicit:
  "is_file stk h (Some g) = Inr (py_bool (dict_get g ''__file__''))"
  by (simp add: is_file_def default_globals_def)

lemma is_interactive_explicit:
  "is_interactive stk h (Some g) =
     Inr (py_eq_str (dict_get g ''__name__'') ''__main__'' \<and> \<not> py_bool (dict_get g ''__file__''))"
  by (simp add: is_interactive_def default_globals_def is_main_explicit is_file_explicit
      py_and_def py_not_def)

lemma is_module_explicit:
  "is_module stk h (Some g) =
     Inr (\<not> py_eq_str (dict_get g ''__name__'') ''__main__'' \<and> py_bool (dict_get g ''__file__''))"
  by (simp add: is_module_def default_globals_def is_main_explicit is_file_explicit
      py_and_def py_not_def)

lemma is_script_explicit:
  "is_script stk h (Some g) =
     Inr (py_eq_str (dict_get g ''__name__'') ''__main__'' \<and> py_bool (dict_get g ''__file__''))"
  by (simp add: is_script_def default_globals_def is_main_explicit is_file_explicit
      py_and_def py_not_def)

lemma py_eq_str_iff: "py_eq_str v t = (v = PStr t)"
  by (cases v) auto

lemma name_is_main_iff:
  "py_eq_str (dict_get g ''__name__'') ''__main__'' = (g ''__name__'' = Some (PStr ''__main__''))"
  by (auto simp: py_eq_str_iff dict_get_def split: option.splits)

lemma file_truthy_iff:
  "py_bool (dict_get g ''__file__'') = (\<exists>v. g ''__file__'' = Some v \<and> py_bool v)"
  by (auto simp: dict_get_def split: option.splits)

text \<open>
  C5. On every scope mapping, \<^verbatim>\<open>is_main\<close> returns true if the \<^verbatim>\<open>__name__\<close> binding is
  present and is the string \<^verbatim>\<open>__main__\<close>, and false otherwise.
\<close>

theorem is_main_iff_name:
  "is_main stk h (Some s) = Inr (s ''__name__'' = Some (PStr ''__main__''))"
  by (simp add: is_main_explicit name_is_main_iff)

text \<open>
  C6. On every scope mapping, \<^verbatim>\<open>is_file\<close> returns true if the \<^verbatim>\<open>__file__\<close> binding is
  present and truthy, and false otherwise: a path string gives true exactly when it is
  not empty, and an absent binding gives false.
\<close>

theorem is_file_iff_truthy:
  "is_file stk h (Some s) = Inr (\<exists>v. s ''__file__'' = Some v \<and> py_bool v)
   \<and> is_file stk h (Some (s(''__file__'' \<mapsto> PStr p))) = Inr (p \<noteq> [])
   \<and> is_file stk h (Some (s(''__file__'' := None))) = Inr False"
  by (simp add: is_file_explicit file_truthy_iff)

text \<open>
  C2. On every scope mapping, \<^verbatim>\<open>is_main\<close> and \<^verbatim>\<open>is_file\<close> return booleans \<open>m\<close> and \<open>f\<close>,
  and \<^verbatim>\<open>is_interactive\<close> returns \<open>m \<and> \<not> f\<close>, \<^verbatim>\<open>is_module\<close> returns \<open>\<not> m \<and> f\<close> and
  \<^verbatim>\<open>is_script\<close> returns \<open>m \<and> f\<close>.
\<close>

theorem modes_are_combinations:
  "\<exists>m f. is_main stk h (Some s) = Inr m \<and> is_file stk h (Some s) = Inr f
     \<and> is_interactive stk h (Some s) = Inr (m \<and> \<not> f)
     \<and> is_module stk h (Some s) = Inr (\<not> m \<and> f)
     \<and> is_script stk h (Some s) = Inr (m \<and> f)"
  by (simp add: is_main_explicit is_file_explicit is_interactive_explicit is_module_explicit
      is_script_explicit)

text \<open>
  C1, as stated, fails on the empty scope mapping, which binds neither \<^verbatim>\<open>__name__\<close> nor
  \<^verbatim>\<open>__file__\<close>: the three predicates all return false there, so it is not the case that
  exactly one of them is true.
\<close>

theorem exactly_one_mode_counterexample:
  "is_interactive [] (\<lambda>a. Map.empty) (Some Map.empty) = Inr False
   \<and> is_module [] (\<lambda>a. Map.empty) (Some Map.empty) = Inr False
   \<and> is_script [] (\<lambda>a. Map.empty) (Some Map.empty) = Inr False
   \<and> \<not> (\<exists>i m c. is_interactive [] (\<lambda>a. Map.empty) (Some Map.empty) = Inr i
          \<and> is_module [] (\<lambda>a. Map.empty) (Some Map.empty) = Inr m
          \<and> is_script [] (\<lambda>a. Map.empty) (Some Map.empty) = Inr c
          \<and> ((i \<and> \<not> m \<and> \<not> c) \<or> (m \<and> \<not> i \<and> \<not> c) \<or> (c \<and> \<not> i \<and> \<not> m)))"
  by (auto simp add: is_interactive_explicit is_module_explicit is_script_explicit dict_get_def)

text \<open>
  C1, amended. On every scope mapping the three predicates return booleans of which at
  most one is true, and one of them is true exactly when \<^verbatim>\<open>is_main\<close> or \<^verbatim>\<open>is_file\<close> is
  true of that scope.
\<close>

theorem at_most_one_mode:
  "\<exists>i m c. is_interactive stk h (Some s) = Inr i \<and> is_module stk h (Some s) = Inr m
     \<and> is_script stk h (Some s) = Inr c
     \<and> \<not> (i \<and> m) \<and> \<not> (i \<and> c) \<and> \<not> (m \<and> c)
     \<and> ((i \<or> m \<or> c) = (is_main stk h (Some s) = Inr True \<or> is_file stk h (Some s) = Inr True))"
  by (auto simp add: is_main_explicit is_file_explicit is_interactive_explicit is_module_explicit
      is_script_explicit)

text \<open>
  C3. On every scope mapping, if \<^verbatim>\<open>is_file\<close> or \<^verbatim>\<open>is_main\<close> returns true, then at least
  one of \<^verbatim>\<open>is_interactive\<close>, \<^verbatim>\<open>is_module\<close> and \<^verbatim>\<open>is_script\<close> returns true.
\<close>

theorem some_mode_when_main_or_file:
  "is_file stk h (Some s) = Inr True \<or> is_main stk h (Some s) = Inr True \<Longrightarrow>
   is_interactive stk h (Some s) = Inr True \<or> is_module stk h (Some s) = Inr True
     \<or> is_script stk h (Some s) = Inr True"
  by (auto simp add: is_main_explicit is_file_explicit is_interactive_explicit is_module_explicit
      is_script_explicit)

text \<open>An interactive session binds \<^verbatim>\<open>__name__\<close> to \<^verbatim>\<open>__main__\<close> and has no \<^verbatim>\<open>__file__\<close>.\<close>

theorem some_mode_when_main_or_file_witness:
  "(is_file [] (\<lambda>a. Map.empty) (Some [''__name__'' \<mapsto> PStr ''__main__'']) = Inr True
     \<or> is_main [] (\<lambda>a. Map.empty) (Some [''__name__'' \<mapsto> PStr ''__main__'']) = Inr True)
   \<and> (is_interactive [] (\<lambda>a. Map.empty) (Some [''__name__'' \<mapsto> PStr ''__main__'']) = Inr True
     \<or> is_module [] (\<lambda>a. Map.empty) (Some [''__name__'' \<mapsto> PStr ''__main__'']) = Inr True
     \<or> is_script [] (\<lambda>a. Map.empty) (Some [''__name__'' \<mapsto> PStr ''__main__'']) = Inr True)"
proof -
  have m: "is_main [] (\<lambda>a. Map.empty) (Some [''__name__'' \<mapsto> PStr ''__main__'']) = Inr True"
    by (simp add: is_main_explicit dict_get_def)
  then have pre: "is_file [] (\<lambda>a. Map.empty) (Some [''__name__'' \<mapsto> PStr ''__main__'']) = Inr True
     \<or> is_main [] (\<lambda>a. Map.empty) (Some [''__name__'' \<mapsto> PStr ''__main__'']) = Inr True"
    by (rule disjI2)
  from pre some_mode_when_main_or_file [OF pre] show ?thesis by (rule conjI)
qed



text \<open>With no argument, a predicate looks at the scope the frame locator finds.\<close>

lemma default_is_located:
  "get_last_module stk = Some fr \<Longrightarrow>
     is_main stk h None = is_main stk h (Some (h (f_globals fr)))
     \<and> is_file stk h None = is_file stk h (Some (h (f_globals fr)))
     \<and> is_interactive stk h None = is_interactive stk h (Some (h (f_globals fr)))
     \<and> is_module stk h None = is_module stk h (Some (h (f_globals fr)))
     \<and> is_script stk h None = is_script stk h (Some (h (f_globals fr)))"
  by (simp add: is_main_def is_file_def is_interactive_def is_module_def is_script_def
      default_globals_def)

lemma default_without_module:
  "get_last_module stk = None \<Longrightarrow>
     is_main stk h None = Inl AttributeError \<and> is_file stk h None = Inl AttributeError
     \<and> is_interactive stk h None = Inl AttributeError
     \<and> is_module stk h None = Inl AttributeError
     \<and> is_script stk h None = Inl AttributeError
     \<and> State_bool cls stk h = Inl AttributeError"
  by (simp add: is_main_def is_file_def is_interactive_def is_module_def is_script_def
      default_globals_def State_bool_def)

section \<open>Properties of the flags\<close>

lemma State_bool_found:
  "get_last_module stk = Some fr \<Longrightarrow> State_bool cls stk h = predicate cls stk h (h (f_globals fr))"
  by (simp add: State_bool_def)

lemma predicate_explicit:
  "predicate cls stk h g =
     Inr (case cls of
            MAIN \<Rightarrow> g ''__name__'' = Some (PStr ''__main__'')
          | FILE \<Rightarrow> (\<exists>v. g ''__file__'' = Some v \<and> py_bool v)
          | INTERACTIVE \<Rightarrow> g ''__name__'' = Some (PStr ''__main__'')
              \<and> \<not> (\<exists>v. g ''__file__'' = Some v \<and> py_bool v)
          | SCRIPT \<Rightarrow> g ''__name__'' = Some (PStr ''__main__'')
              \<and> (\<exists>v. g ''__file__'' = Some v \<and> py_bool v)
          | MODULE \<Rightarrow> g ''__name__'' \<noteq> Some (PStr ''__main__'')
              \<and> (\<exists>v. g ''__file__'' = Some v \<and> py_bool v))"
  by (cases cls)
    (simp_all add: is_main_explicit is_file_explicit is_interactive_explicit is_module_explicit
      is_script_explicit name_is_main_iff file_truthy_iff)



text \<open>
  A flag's truth value depends on the stack only through the frame the locator finds, so
  the frames of \<^verbatim>\<open>__or__\<close>, \<^verbatim>\<open>__bool__\<close> and \<^verbatim>\<open>get_last_module\<close> themselves, entered on the
  way, do not change it.
\<close>

lemma predicate_any_stack: "predicate cls stk' h g = predicate cls stk h g"
  by (simp add: predicate_explicit)

lemma State_bool_same_module:
  "get_last_module stk' = get_last_module stk \<Longrightarrow> State_bool cls stk' h = State_bool cls stk h"
  by (simp add: State_bool_def predicate_any_stack [of cls stk' h _ stk] split: option.splits)

lemma State_bool_skips:
  "list_all (\<lambda>fr. f_locals fr \<noteq> f_globals fr) inner \<Longrightarrow>
   State_bool cls (inner @ stk) h = State_bool cls stk h"
  by (rule State_bool_same_module) (rule get_last_module_skips)

lemma operand_bool_skips:
  "list_all (\<lambda>fr. f_locals fr \<noteq> f_globals fr) inner \<Longrightarrow>
   operand_bool x (inner @ stk) h = operand_bool x stk h"
  by (cases x) (simp_all add: State_bool_skips)

lemma operators_skip:
  "list_all (\<lambda>fr. f_locals fr \<noteq> f_globals fr) inner \<Longrightarrow>
   py_or_obj x y (inner @ stk) h = py_or_obj x y stk h
   \<and> py_and_obj x y (inner @ stk) h = py_and_obj x y stk h"
  by (simp add: py_or_obj_def py_and_obj_def operand_bool_skips)

lemma imported_stack_module:
  "get_last_module imported_stack = Some \<lparr>f_locals = 2, f_globals = 2\<rparr>"
  by simp

lemma script_stack_module:
  "get_last_module script_stack = Some \<lparr>f_locals = 5, f_globals = 5\<rparr>"
  by simp

lemma operand_returned_depends_on_order:
  "py_bar (Flag MAIN) (Flag SCRIPT) imported_stack example_heap = Inr (Flag SCRIPT)
   \<and> py_bar (Flag SCRIPT) (Flag MAIN) imported_stack example_heap = Inr (Flag MAIN)
   \<and> py_bar (Flag MAIN) (Plain (PBool False)) imported_stack example_heap = Inr (Plain (PBool False))
   \<and> py_bar (Plain (PBool False)) (Flag MAIN) imported_stack example_heap = Inr (Flag MAIN)"
  by (simp add: State_or_def State_ror_def py_or_obj_def State_bool_def predicate_explicit)

text \<open>
  C9. When the frame locator finds the caller's module frame, and the scope of that frame
  binds \<^verbatim>\<open>__name__\<close> to something other than \<^verbatim>\<open>__main__\<close> and \<^verbatim>\<open>__file__\<close> to a truthy
  value, then \<^verbatim>\<open>MODULE\<close> and \<^verbatim>\<open>FILE\<close> are true, \<^verbatim>\<open>MAIN\<close>, \<^verbatim>\<open>INTERACTIVE\<close> and \<^verbatim>\<open>SCRIPT\<close>
  are false, \<^verbatim>\<open>MAIN | SCRIPT\<close> is false and \<^verbatim>\<open>MODULE & (not MAIN) & FILE\<close> is true.
\<close>

theorem module_context_flags:
  assumes "get_last_module stk = Some fr"
    and "h (f_globals fr) ''__name__'' \<noteq> Some (PStr ''__main__'')"
    and "\<exists>v. h (f_globals fr) ''__file__'' = Some v \<and> py_bool v"
  shows "State_bool MODULE stk h = Inr True \<and> State_bool FILE stk h = Inr True
    \<and> State_bool MAIN stk h = Inr False \<and> State_bool INTERACTIVE stk h = Inr False
    \<and> State_bool SCRIPT stk h = Inr False
    \<and> truth (main_or_script stk h) stk h = Inr False
    \<and> truth (module_and_not_main_and_file stk h) stk h = Inr True"
proof -
  have flags: "State_bool MODULE stk h = Inr True" "State_bool FILE stk h = Inr True"
    "State_bool MAIN stk h = Inr False" "State_bool INTERACTIVE stk h = Inr False"
    "State_bool SCRIPT stk h = Inr False"
    using assms by (simp_all add: State_bool_found predicate_explicit)
  have "main_or_script stk h = Inr (Flag SCRIPT)"
    by (simp add: main_or_script_def State_or_def py_or_obj_def flags)
  then have bar: "truth (main_or_script stk h) stk h = Inr False"
    by (simp add: truth_def flags)
  have "module_and_not_main_and_file stk h = Inr (Plain (PBool True))"
    by (simp add: module_and_not_main_and_file_def then_res_def py_not_def State_and_def
        State_rand_def py_and_obj_def flags)
  then have amp: "truth (module_and_not_main_and_file stk h) stk h = Inr True"
    by (simp add: truth_def)
  from flags bar amp show ?thesis by simp
qed

text \<open>The module imported under the name \<^verbatim>\<open>isa\<close> from the file \<^verbatim>\<open>isa.py\<close>.\<close>

theorem module_context_flags_witness:
  "get_last_module imported_stack = Some \<lparr>f_locals = 2, f_globals = 2\<rparr>
   \<and> State_bool MODULE imported_stack example_heap = Inr True
   \<and> State_bool FILE imported_stack example_heap = Inr True
   \<and> State_bool MAIN imported_stack example_heap = Inr False
   \<and> State_bool INTERACTIVE imported_stack example_heap = Inr False
   \<and> State_bool SCRIPT imported_stack example_heap = Inr False
   \<and> truth (main_or_script imported_stack example_heap) imported_stack example_heap = Inr False
   \<and> truth (module_and_not_main_and_file imported_stack example_heap) imported_stack example_heap
       = Inr True"
proof -
  have name: "example_heap (f_globals \<lparr>f_locals = 2, f_globals = 2\<rparr>) ''__name__''
      \<noteq> Some (PStr ''__main__'')"
    by simp
  have "example_heap (f_globals \<lparr>f_locals = 2, f_globals = 2\<rparr>) ''__file__'' = Some (PStr ''isa.py'')
      \<and> py_bool (PStr ''isa.py'')"
    by simp
  then have path: "\<exists>v. example_heap (f_globals \<lparr>f_locals = 2, f_globals = 2\<rparr>) ''__file__'' = Some v
      \<and> py_bool v"
    by blast
  from imported_stack_module
    module_context_flags [of imported_stack "\<lparr>f_locals = 2, f_globals = 2\<rparr>" example_heap,
      OF imported_stack_module name path]
  show ?thesis by (rule conjI)
qed





end
